theory Spec2Isabelle
  imports Complex_Main
begin

section \<open>Values shared by the modules\<close>

text \<open>
  Port numbers are JavaScript numbers holding integers; they are modelled as \<open>int\<close>, so
  that a negative port is an input as well. Durations and timeouts are JavaScript
  numbers too; a timeout is a rational (a finite number), a clock reading
  (\<open>Date.now()\<close>) an \<open>int\<close> of milliseconds. Where the code computes with them, the
  arithmetic is that of the section on JavaScript numbers.
\<close>

type_synonym port = int

type_synonym terminal = nat

text \<open>The three errors of the editor's Uri validation.\<close>

datatype uri_error = Illegal_Scheme | Path_Needs_Slash | Path_Has_Two_Slashes

datatype js_error =
    Js_Error string
  | Socket_Error string
  | Bad_Port port
  | Port_Not_Open port
  | Binary_Not_Supported string
  | Out_Of_Range string
  | Uri_Error uri_error

text \<open>A promise settles once: \<open>resolve\<close> and \<open>reject\<close> on a settled promise do nothing.\<close>

datatype 'a promise = Pending | Fulfilled 'a | Rejected js_error

definition resolve :: "'a \<Rightarrow> 'a promise \<Rightarrow> 'a promise" where
  "resolve v p = (case p of Pending \<Rightarrow> Fulfilled v | _ \<Rightarrow> p)"

definition reject :: "js_error \<Rightarrow> 'a promise \<Rightarrow> 'a promise" where
  "reject e p = (case p of Pending \<Rightarrow> Rejected e | _ \<Rightarrow> p)"

definition default_arg :: "'a \<Rightarrow> 'a option \<Rightarrow> 'a" where
  "default_arg d a = (case a of None \<Rightarrow> d | Some v \<Rightarrow> v)"


section \<open>net-utils.ts: isPortOpen\<close>

text \<open>
  \<open>isPortOpen\<close> creates a socket, sets its timeout, connects, and registers one
  listener for each of the socket's events. The events the socket then emits come
  from the network; the model takes them as a list and runs the listeners over it.
  The connect callback is a once-listener (\<open>client.connect(port, host, cb)\<close>).
  Node checks the arguments at once: \<open>setTimeout\<close> throws for a negative timeout and
  \<open>connect\<close> for a port outside 0..65535. The throw happens inside the executor of
  the promise, so the promise is rejected with the error, the listeners that the
  code registers after \<open>connect\<close> are never registered, and no event reaches it.
\<close>

datatype socket_event = Ev_connect | Ev_timeout | Ev_error js_error | Ev_close

datatype socket_call = Set_Timeout rat | Connect port string | End_Socket | Destroy_Socket

record probe =
  settled :: "bool promise"
  client_calls :: "socket_call list"
  connect_armed :: bool

definition on_socket_event :: "socket_event \<Rightarrow> probe \<Rightarrow> probe" where
  "on_socket_event ev s =
     (case ev of
        Ev_connect \<Rightarrow>
          (if connect_armed s
           then s\<lparr>settled := resolve True (settled s),
                  client_calls := client_calls s @ [End_Socket],
                  connect_armed := False\<rparr>
           else s)
      | Ev_timeout \<Rightarrow>
          s\<lparr>client_calls := client_calls s @ [Destroy_Socket],
            settled := reject (Js_Error ''Timed out'') (settled s)\<rparr>
      | Ev_error err \<Rightarrow> s\<lparr>settled := reject err (settled s)\<rparr>
      | Ev_close \<Rightarrow> s\<lparr>settled := reject (Js_Error ''Connection closed'') (settled s)\<rparr>)"

definition isPortOpen :: "string \<Rightarrow> port \<Rightarrow> rat option \<Rightarrow> socket_event list \<Rightarrow> probe" where
  "isPortOpen host p timeout evs =
     (if default_arg 1000 timeout < 0 then
        \<lparr>settled = Rejected (Out_Of_Range ''msecs''), client_calls = [],
         connect_armed = False\<rparr>
      else if p < 0 \<or> 65535 < p then
        \<lparr>settled = Rejected (Bad_Port p),
         client_calls = [Set_Timeout (default_arg 1000 timeout)],
         connect_armed = False\<rparr>
      else
        fold on_socket_event evs
          \<lparr>settled = Pending,
           client_calls = [Set_Timeout (default_arg 1000 timeout), Connect p host],
           connect_armed = True\<rparr>)"


section \<open>net-utils.ts: isServerPortAvailable and closeServer\<close>

text \<open>
  The operating system, as far as the bind probes see it: the loopback ports that
  have a listener, the ports this process may not bind, and the port the system
  would hand to a bind on port 0 (none when it has no free port).
\<close>

record os =
  listeners :: "port set"
  denied :: "port set"
  ephemeral :: "port option"

text \<open>A server is the port its listening handle is bound to, \<open>None\<close> while it has none.\<close>

type_synonym server = "port option"

text \<open>
  How \<open>server.listen\<close> ends: it throws, or the server emits \<open>listening\<close> (with the
  port that \<open>server.address()\<close> then reports) or \<open>error\<close>.
\<close>

datatype listen_outcome = Listen_Throws js_error | Ev_listening port | Ev_listen_error js_error

definition createServer :: server where
  "createServer = None"

text \<open>
  \<open>server.listen(port, "127.0.0.1")\<close>: Node checks the port number at once and throws
  for one outside 0..65535; the bind itself happens later and ends in the server's
  \<open>listening\<close> or \<open>error\<close> event.
\<close>

definition bind_port :: "port \<Rightarrow> server \<Rightarrow> os \<Rightarrow> listen_outcome \<times> server \<times> os" where
  "bind_port q srv w =
     (if q \<in> listeners w then (Ev_listen_error (Socket_Error ''EADDRINUSE''), srv, w)
      else if q \<in> denied w then (Ev_listen_error (Socket_Error ''EACCES''), srv, w)
      else (Ev_listening q, Some q, w\<lparr>listeners := insert q (listeners w)\<rparr>))"

definition server_listen :: "port \<Rightarrow> server \<Rightarrow> os \<Rightarrow> listen_outcome \<times> server \<times> os" where
  "server_listen p srv w =
     (if p < 0 \<or> 65535 < p then (Listen_Throws (Bad_Port p), srv, w)
      else if p = 0 then
        (case ephemeral w of
           None \<Rightarrow> (Ev_listen_error (Socket_Error ''EADDRINUSE''), srv, w)
         | Some q \<Rightarrow> bind_port q srv w)
      else bind_port p srv w)"

text \<open>
  \<open>closeServer\<close>: \<open>server.close\<close> releases the listening handle; on a server that
  is not listening it reports an error, which the callback ignores.
\<close>

definition closeServer :: "server \<Rightarrow> os \<Rightarrow> os" where
  "closeServer srv w =
     (case srv of None \<Rightarrow> w | Some q \<Rightarrow> w\<lparr>listeners := listeners w - {q}\<rparr>)"

text \<open>
  The promise \<open>p\<close> resolves \<open>true\<close> on \<open>listening\<close> and \<open>false\<close> on \<open>error\<close>; its
  \<open>finally\<close> handler calls \<open>closeServer\<close> before the promise the caller awaits
  settles. When \<open>listen\<close> throws, the async function rejects and \<open>p\<close> never settles.
  The result is the settled value and the operating system the caller finds.
\<close>

definition isServerPortAvailable :: "port \<Rightarrow> os \<Rightarrow> (js_error + bool) \<times> os" where
  "isServerPortAvailable p w =
     (case server_listen p createServer w of
        (Listen_Throws e, srv, w') \<Rightarrow> (Inl e, w')
      | (Ev_listening q, srv, w') \<Rightarrow> (Inr True, closeServer srv w')
      | (Ev_listen_error e, srv, w') \<Rightarrow> (Inr False, closeServer srv w'))"


section \<open>retry-utils.ts: retryUntilTimeout\<close>

text \<open>
  Modelled from the spec: \<open>retryUntilTimeout\<close> of \<open>retry-utils.ts\<close>, which is not
  among the sources. The spec (4.1): the probe is invoked repeatedly; a probe that
  fails is retried after a pause of exactly the interval; the first value a probe
  returns is the result; once the time since the first attempt has reached the
  timeout the result is absent (\<open>undefined\<close>), not an error; the deadline is looked
  at between attempts only, and the time an attempt takes is not compensated. The
  spec (8) bounds the time of a run that never succeeds, for every timeout from 0 on,
  by \<open>timeout \<le> elapsed < timeout + interval + latency\<close>: the loop stops as soon as
  the elapsed time is no longer below the timeout, also before the first attempt.

  The attempts are a list: what each attempt takes (milliseconds) and how it ends.
  \<open>Some (Some v)\<close> is the value \<open>v\<close>, \<open>Some None\<close> is \<open>undefined\<close>, and \<open>None\<close> says
  that the list ended while the loop was still running.
\<close>

fun retryUntilTimeout ::
  "rat \<Rightarrow> nat \<Rightarrow> nat \<Rightarrow> (nat \<times> (js_error + 'a)) list \<Rightarrow> 'a option option" where
  "retryUntilTimeout timeoutMs intervalMs elapsed [] =
     (if of_nat elapsed < timeoutMs then None else Some None)"
| "retryUntilTimeout timeoutMs intervalMs elapsed ((latency, outcome) # rest) =
     (if of_nat elapsed < timeoutMs then
        (case outcome of
           Inr v \<Rightarrow> Some (Some v)
         | Inl e \<Rightarrow> retryUntilTimeout timeoutMs intervalMs (elapsed + latency + intervalMs) rest)
      else Some None)"


section \<open>net-utils.ts: waitUntilServerPortIsAvailable\<close>

text \<open>
  Each attempt of the retry runs \<open>isServerPortAvailable\<close> on the operating system as
  it is at that moment; the callback returns \<open>true\<close> or throws.
\<close>

definition port_callback :: "port \<Rightarrow> os \<Rightarrow> js_error + bool" where
  "port_callback p w =
     (case fst (isServerPortAvailable p w) of
        Inl e \<Rightarrow> Inl e
      | Inr b \<Rightarrow> (if b = True then Inr True else Inl (Port_Not_Open p)))"

definition waitUntilServerPortIsAvailable ::
  "port \<Rightarrow> rat option \<Rightarrow> (nat \<times> os) list \<Rightarrow> bool option" where
  "waitUntilServerPortIsAvailable p timeout attempts =
     (case retryUntilTimeout (default_arg 1000 timeout) 80 0
             (map (\<lambda>(latency, w). (latency, port_callback p w)) attempts) of
        None \<Rightarrow> None
      | Some portIsOpen \<Rightarrow> (if portIsOpen = Some True then Some True else Some False))"

text \<open>The time at which attempt \<open>k\<close> starts, counted from the first attempt.\<close>

fun attempt_start :: "nat \<Rightarrow> (nat \<times> 'a) list \<Rightarrow> nat \<Rightarrow> nat" where
  "attempt_start intervalMs attempts 0 = 0"
| "attempt_start intervalMs [] (Suc k) = 0"
| "attempt_start intervalMs ((latency, x) # rest) (Suc k) =
     latency + intervalMs + attempt_start intervalMs rest k"


section \<open>net-utils.ts: suggestPort and UNSAFE_PORTS\<close>

definition UNSAFE_PORTS :: "port list" where
  "UNSAFE_PORTS =
     [1, 7, 9, 11, 13, 15, 17, 19, 20, 21, 22, 23, 25, 37, 42, 43, 53, 69, 77, 79,
      87, 95, 101, 102, 103, 104, 109, 110, 111, 113, 115, 117, 119, 123, 135, 137,
      139, 143, 161, 179, 389, 427, 465, 512, 513, 514, 515, 526, 530, 531, 532,
      540, 548, 554, 556, 563, 587, 601, 636, 989, 990, 993, 995, 1719, 1720, 1723,
      2049, 3659, 4045, 5060, 5061, 6000, 6566, 6665, 6666, 6667, 6668, 6669, 6697,
      10080]"

text \<open>
  Every turn of the loop binds a fresh server to port 0 on the operating system as it
  is at that moment, reads the assigned port when the server is listening, closes the
  server, and returns the port unless it is in \<open>UNSAFE_PORTS\<close>. An \<open>error\<close> event
  rejects, after the server was closed as well. The loop has no bound: \<open>None\<close> says
  that the list of system states ended while it was running. The result carries the
  operating system as the last turn left it.
\<close>

fun suggestPort :: "os list \<Rightarrow> ((js_error + port) \<times> os) option" where
  "suggestPort [] = None"
| "suggestPort (w # ws) =
     (case server_listen 0 createServer w of
        (Ev_listening q, srv, w') \<Rightarrow>
          (if q \<notin> set UNSAFE_PORTS then Some (Inr q, closeServer srv w')
           else suggestPort ws)
      | (Ev_listen_error e, srv, w') \<Rightarrow> Some (Inl e, closeServer srv w')
      | (Listen_Throws e, srv, w') \<Rightarrow> Some (Inl e, w'))"

text \<open>The system hands out TCP ports only.\<close>

definition os_ok :: "os \<Rightarrow> bool" where
  "os_ok w = (case ephemeral w of None \<Rightarrow> True | Some q \<Rightarrow> 1 \<le> q \<and> q \<le> 65535)"


section \<open>JavaScript numbers\<close>

text \<open>
  The arithmetic of JavaScript numbers is that of IEEE 754 binary64. A number is a
  rational that binary64 holds, an infinity, or NaN. The two zeros are one value
  here (as \<open>===\<close> has them), and a division by zero takes the zero as \<open>+0\<close>; equality
  of the model is identity of values, so NaN equals itself in it.
\<close>

datatype js_number = Num rat | Pos_Infinity | Neg_Infinity | Not_A_Number

definition pow2 :: "int \<Rightarrow> rat" where
  "pow2 e = (if 0 \<le> e then 2 ^ nat e else 1 / 2 ^ nat (- e))"

text \<open>The number of binary digits of a positive integer.\<close>

function bit_length :: "int \<Rightarrow> int" where
  "bit_length n = (if n \<le> 0 then 0 else 1 + bit_length (n div 2))"
  by pat_completeness auto
termination
  by (relation "measure nat") auto

text \<open>The exponent \<open>e\<close> of a positive rational \<open>a\<close>: \<open>2 ^ e \<le> a < 2 ^ (e + 1)\<close>.\<close>

definition binary_exponent :: "rat \<Rightarrow> int" where
  "binary_exponent a =
     (case quotient_of a of
        (n, d) \<Rightarrow>
          (let e = bit_length n - bit_length d in if pow2 e \<le> a then e else e - 1))"

definition round_half_even :: "rat \<Rightarrow> int" where
  "round_half_even x =
     (let f = \<lfloor>x\<rfloor>; r = x - of_int f in
      if r < 1 / 2 then f else if 1 / 2 < r then f + 1
      else if even f then f else f + 1)"

text \<open>
  Rounding to the nearest binary64 value, ties to even: 53 significant bits, the
  spacing of the subnormal numbers (\<open>2 ^ - 1074\<close>) below the normal range, and an
  infinity when the rounded value reaches \<open>2 ^ 1024\<close>.
\<close>

definition round_to_double :: "rat \<Rightarrow> js_number" where
  "round_to_double x =
     (if x = 0 then Num 0
      else
        let a = \<bar>x\<bar>;
            q = max (binary_exponent a - 52) (- 1074);
            y = of_int (round_half_even (a / pow2 q)) * pow2 q
        in if 0 < y \<and> 1024 \<le> binary_exponent y
           then (if 0 < x then Pos_Infinity else Neg_Infinity)
           else Num (if 0 < x then y else - y))"

definition js_sign :: "js_number \<Rightarrow> int" where
  "js_sign a =
     (case a of Num x \<Rightarrow> (if 0 < x then 1 else if x < 0 then - 1 else 0)
      | Pos_Infinity \<Rightarrow> 1 | Neg_Infinity \<Rightarrow> - 1 | Not_A_Number \<Rightarrow> 0)"

definition infinity_of :: "int \<Rightarrow> js_number" where
  "infinity_of s = (if 0 < s then Pos_Infinity else if s < 0 then Neg_Infinity else Not_A_Number)"

definition js_neg :: "js_number \<Rightarrow> js_number" where
  "js_neg a =
     (case a of Num x \<Rightarrow> Num (- x) | Pos_Infinity \<Rightarrow> Neg_Infinity
      | Neg_Infinity \<Rightarrow> Pos_Infinity | Not_A_Number \<Rightarrow> Not_A_Number)"

definition js_add :: "js_number \<Rightarrow> js_number \<Rightarrow> js_number" where
  "js_add a b =
     (case (a, b) of
        (Num x, Num y) \<Rightarrow> round_to_double (x + y)
      | (Not_A_Number, _) \<Rightarrow> Not_A_Number
      | (_, Not_A_Number) \<Rightarrow> Not_A_Number
      | (Pos_Infinity, Neg_Infinity) \<Rightarrow> Not_A_Number
      | (Neg_Infinity, Pos_Infinity) \<Rightarrow> Not_A_Number
      | (Pos_Infinity, _) \<Rightarrow> Pos_Infinity
      | (_, Pos_Infinity) \<Rightarrow> Pos_Infinity
      | _ \<Rightarrow> Neg_Infinity)"

definition js_sub :: "js_number \<Rightarrow> js_number \<Rightarrow> js_number" where
  "js_sub a b = js_add a (js_neg b)"

definition js_mul :: "js_number \<Rightarrow> js_number \<Rightarrow> js_number" where
  "js_mul a b =
     (case (a, b) of
        (Num x, Num y) \<Rightarrow> round_to_double (x * y)
      | (Not_A_Number, _) \<Rightarrow> Not_A_Number
      | (_, Not_A_Number) \<Rightarrow> Not_A_Number
      | _ \<Rightarrow> infinity_of (js_sign a * js_sign b))"

definition js_div :: "js_number \<Rightarrow> js_number \<Rightarrow> js_number" where
  "js_div a b =
     (case (a, b) of
        (Num x, Num y) \<Rightarrow>
          (if y = 0 then infinity_of (js_sign a) else round_to_double (x / y))
      | (Num x, Pos_Infinity) \<Rightarrow> Num 0
      | (Num x, Neg_Infinity) \<Rightarrow> Num 0
      | (Pos_Infinity, Num y) \<Rightarrow> (if y < 0 then Neg_Infinity else Pos_Infinity)
      | (Neg_Infinity, Num y) \<Rightarrow> (if y < 0 then Pos_Infinity else Neg_Infinity)
      | _ \<Rightarrow> Not_A_Number)"

text \<open>The sum of a list of numbers, added up in the order of the list.\<close>

definition js_sum :: "js_number list \<Rightarrow> js_number" where
  "js_sum xs = foldl js_add (Num 0) xs"


section \<open>net-utils.ts: configuration and openBrowser\<close>

text \<open>
  What the editor provides: the two settings (absent when the user has not set them),
  whether the extension host offers a preview hook (\<open>getExtensionHostPreview\<close>),
  the URL rewriting of \<open>getRemoteSafeUrl\<close>, a function of the port, and the
  percent-decoding that \<open>vscode.Uri.parse\<close> applies.
\<close>

record vscode_env =
  previewType_setting :: "string option"
  timeoutOpenBrowser_setting :: "rat option"
  hostPreview :: bool
  getRemoteSafeUrl :: "port \<Rightarrow> string"
  percentDecode :: "string \<Rightarrow> string"

definition configShinyPreviewType :: "vscode_env \<Rightarrow> string" where
  "configShinyPreviewType env =
     (case previewType_setting env of
        None \<Rightarrow> ''internal''
      | Some s \<Rightarrow> (if s = [] then ''internal'' else s))"

definition configShinyTimeoutOpenBrowser :: "vscode_env \<Rightarrow> rat" where
  "configShinyTimeoutOpenBrowser env = default_arg 10 (timeoutOpenBrowser_setting env) * 1000"

text \<open>
  What a run does, in the order it does it: the calls on the editor and the console,
  and \<open>Probing\<close> for the waits a call starts inside the progress notification (one
  \<open>retryUntilTimeout\<close> with the timeout for each of the ports, raced against the
  closing of the terminal when there is one). The message of the timeout prompt is a
  template over the whole seconds of the timeout (taken of the exact quotient); the
  other messages are literal.
\<close>

datatype message = Took_Longer int | Literal string

datatype event =
    With_Progress string
  | Probing "port list" "terminal option" rat
  | Progress_Report js_number
  | Console_Warn string
  | Show_Error_Message message "string list"
  | Terminal_Show terminal
  | Open_External string
  | Host_Preview string
  | Simple_Browser_Open string

text \<open>
  \<open>vscode.Uri.parse(url)\<close> (the editor's \<open>uri.ts\<close>, not strict). The string is split by
  the regular expression
  \<^verbatim>\<open>^(([^:/?#]+?):)?(\/\/([^/?#]*))?([^?#]*)(\?([^#]*))?(#(.*))?\<close>
  into scheme, authority, path, query and fragment; authority and path are
  percent-decoded (\<open>percentDecode\<close>, a parameter: the editor's decoding of \<open>%XX\<close>
  runs); an absent scheme becomes \<open>file\<close>; the path of \<open>https\<close>, \<open>http\<close> and \<open>file\<close> gets
  a leading slash; then the result is validated, and the validation throws for a
  scheme that does not match \<^verbatim>\<open>^\w[\w\d+.-]*$\<close>, for a path that does not start with a
  slash when there is an authority, and for a path that starts with two slashes when
  there is none. Query and fragment play no part in that, and only the outcome of
  the validation is modelled: \<open>None\<close> when the string parses, the error otherwise.
\<close>

definition parse_scheme :: "string \<Rightarrow> string \<times> string" where
  "parse_scheme s =
     (let run = takeWhile (\<lambda>c. c \<notin> set '':/?#'') s;
          rest = dropWhile (\<lambda>c. c \<notin> set '':/?#'') s
      in if run \<noteq> [] \<and> take 1 rest = '':'' then (run, drop 1 rest) else ([], s))"

definition parse_authority :: "string \<Rightarrow> string \<times> string" where
  "parse_authority s =
     (if take 2 s = ''//''
      then (takeWhile (\<lambda>c. c \<notin> set ''/?#'') (drop 2 s),
            dropWhile (\<lambda>c. c \<notin> set ''/?#'') (drop 2 s))
      else ([], s))"

definition parse_path :: "string \<Rightarrow> string" where
  "parse_path s = takeWhile (\<lambda>c. c \<notin> set ''?#'') s"

definition word_char :: "char \<Rightarrow> bool" where
  "word_char c =
     (c \<in> set ''abcdefghijklmnopqrstuvwxyzABCDEFGHIJKLMNOPQRSTUVWXYZ0123456789_'')"

definition schemePattern :: "string \<Rightarrow> bool" where
  "schemePattern s =
     (case s of
        [] \<Rightarrow> False
      | c # cs \<Rightarrow> word_char c \<and> list_all (\<lambda>d. word_char d \<or> d \<in> set ''+.-'') cs)"

definition schemeFix :: "string \<Rightarrow> string" where
  "schemeFix scheme = (if scheme = [] then ''file'' else scheme)"

definition referenceResolution :: "string \<Rightarrow> string \<Rightarrow> string" where
  "referenceResolution scheme path =
     (if scheme = ''https'' \<or> scheme = ''http'' \<or> scheme = ''file''
      then (if path = [] then ''/'' else if take 1 path \<noteq> ''/'' then ''/'' @ path else path)
      else path)"

definition validateUri :: "string \<Rightarrow> string \<Rightarrow> string \<Rightarrow> js_error option" where
  "validateUri scheme authority path =
     (if scheme \<noteq> [] \<and> \<not> schemePattern scheme
      then Some (Uri_Error Illegal_Scheme)
      else if path \<noteq> [] then
        (if authority \<noteq> [] then
           (if take 1 path \<noteq> ''/''
            then Some (Uri_Error Path_Needs_Slash)
            else None)
         else if take 2 path = ''//''
           then Some (Uri_Error Path_Has_Two_Slashes)
           else None)
      else None)"

definition uri_parse_error :: "(string \<Rightarrow> string) \<Rightarrow> string \<Rightarrow> js_error option" where
  "uri_parse_error decode s =
     (case parse_scheme s of
        (scheme0, rest1) \<Rightarrow>
          (case parse_authority rest1 of
             (authority0, rest2) \<Rightarrow>
               (let scheme = schemeFix scheme0;
                    authority = decode authority0;
                    path = referenceResolution scheme (decode (parse_path rest2))
                in validateUri scheme authority path)))"

text \<open>
  \<open>openBrowser\<close>. \<open>Open_External url\<close> is the call of \<open>vscode.env.openExternal\<close> with
  the Uri parsed from \<open>url\<close>; when \<open>vscode.Uri.parse\<close> throws, the call is not reached
  and \<open>openBrowser\<close> rejects with the error (\<open>Inl\<close>).
\<close>

definition openBrowser :: "vscode_env \<Rightarrow> string \<Rightarrow> js_error + event list" where
  "openBrowser env url =
     (let previewType = configShinyPreviewType env in
      if previewType = ''none'' then Inr []
      else if previewType = ''external'' then
        (if url = ''about:blank'' then Inr []
         else
           (case uri_parse_error (percentDecode env) url of
              Some e \<Rightarrow> Inl e
            | None \<Rightarrow> Inr [Open_External url]))
      else if previewType = ''internal'' \<and> hostPreview env then Inr [Host_Preview url]
      else Inr [Simple_Browser_Open url])"


section \<open>net-utils.ts: openBrowserWhenReady\<close>

text \<open>
  \<open>reportProgress\<close> with the variable \<open>lastProgressReport\<close> it closes over passed in
  and out. The increment is computed as the code computes it, in binary64: the
  difference of the two clock readings, divided by the timeout, times 100.
\<close>

definition reportProgress :: "rat \<Rightarrow> int \<Rightarrow> int \<Rightarrow> js_number \<times> int" where
  "reportProgress timeout now lastProgressReport =
     (js_mul
        (js_div (js_sub (Num (of_int now)) (Num (of_int lastProgressReport))) (Num timeout))
        (Num 100),
      now)"

fun report_all :: "rat \<Rightarrow> int \<Rightarrow> int list \<Rightarrow> js_number list" where
  "report_all timeout lastProgressReport [] = []"
| "report_all timeout lastProgressReport (now # nows) =
     (case reportProgress timeout now lastProgressReport of
        (increment, lastProgressReport') \<Rightarrow>
          increment # report_all timeout lastProgressReport' nows)"

text \<open>
  One call of \<open>openBrowserWhenReady\<close> waits once; what the world does during that
  wait and after it is a \<open>round\<close>: the clock when the progress body starts and at
  every call of \<open>reportProgress\<close> (the retry loops of all ports share the one
  reporter and run on one thread), what the retry of the port at each position
  returns (\<open>Some True\<close> for \<open>true\<close>, \<open>None\<close> for \<open>undefined\<close>), whether the
  terminal-closed promise settles the race first, whether \<open>terminal.exitStatus\<close> is
  set when the result is inspected, the label the user picks in the prompt (none when
  the prompt is dismissed), and whether \<open>terminal.exitStatus\<close> is set by then.
\<close>

record round =
  clock_start :: int
  clock_reports :: "int list"
  retry_result :: "nat \<Rightarrow> bool option"
  closed_first :: bool
  exited_at_inspect :: bool
  user_action :: "string option"
  exited_at_decision :: bool

datatype race_result = Ports_Array "bool option list" | Terminal_Closed

definition falsy :: "bool option \<Rightarrow> bool" where
  "falsy v = (v \<noteq> Some True)"

definition progress_body :: "port list \<Rightarrow> terminal option \<Rightarrow> rat \<Rightarrow> round \<Rightarrow> event list" where
  "progress_body ports term timeout r =
     [With_Progress ''Waiting for Shiny app to start...'', Probing ports term timeout]
     @ map Progress_Report (report_all timeout (clock_start r) (clock_reports r))"

definition portsOpenResult :: "port list \<Rightarrow> terminal option \<Rightarrow> round \<Rightarrow> race_result" where
  "portsOpenResult ports term r =
     (let portsOpen = map (retry_result r) [0..<length ports] in
      case term of
        None \<Rightarrow> Ports_Array portsOpen
      | Some t \<Rightarrow> (if closed_first r then Terminal_Closed else Ports_Array portsOpen))"

datatype status = Returned | Awaiting | Threw js_error

definition emit :: "event list \<Rightarrow> event list \<times> status \<Rightarrow> event list \<times> status" where
  "emit es res = (es @ fst res, snd res)"

text \<open>
  The rounds are the rounds of the successive waits; \<open>Awaiting\<close> says that the list
  ended while a wait was still running, \<open>Threw\<close> that the call rejects with the error
  (of \<open>openBrowser\<close>). The settings are taken as fixed during a run.
\<close>

fun openBrowserWhenReady ::
  "vscode_env \<Rightarrow> round list \<Rightarrow> port \<Rightarrow> port list \<Rightarrow> terminal option \<Rightarrow> rat option
     \<Rightarrow> event list \<times> status" where
  "openBrowserWhenReady env [] p additionalPorts term timeout_arg =
     (if configShinyPreviewType env = ''none'' then ([], Returned)
      else
        ([With_Progress ''Waiting for Shiny app to start...'',
          Probing (p # additionalPorts) term
            (default_arg (configShinyTimeoutOpenBrowser env) timeout_arg)],
         Awaiting))"
| "openBrowserWhenReady env (r # rs) p additionalPorts term timeout_arg =
     (if configShinyPreviewType env = ''none'' then ([], Returned)
      else
        let timeout = default_arg (configShinyTimeoutOpenBrowser env) timeout_arg;
            waited = progress_body (p # additionalPorts) term timeout r
        in
        (case portsOpenResult (p # additionalPorts) term r of
           Terminal_Closed \<Rightarrow>
             (waited
              @ [Console_Warn ''[shiny] Terminal has been closed, will not launch browser''],
              Returned)
         | Ports_Array results \<Rightarrow>
             if term \<noteq> None \<and> exited_at_inspect r then
               (waited
                @ [Console_Warn ''[shiny] Terminal has been closed, will not launch browser''],
                Returned)
             else if filter falsy results \<noteq> [] then
               (let prompt =
                      [Show_Error_Message (Took_Longer \<lfloor>timeout / 1000\<rfloor>)
                         [if term \<noteq> None then ''Show Shiny process'' else [],
                          ''Keep waiting'']]
                in
                if user_action r = Some ''Keep waiting'' then
                  (if term \<noteq> None \<and> exited_at_decision r then
                     (waited @ prompt
                      @ [Show_Error_Message
                           (Literal ''Shiny terminal was closed, please run the app again.'') []],
                      Returned)
                   else
                     emit (waited @ prompt)
                       (openBrowserWhenReady env rs p additionalPorts term (Some 30000)))
                else
                  (waited @ prompt
                   @ (if user_action r = Some ''Show Shiny process''
                      then (case term of None \<Rightarrow> [] | Some t \<Rightarrow> [Terminal_Show t])
                      else [])
                   @ [Console_Warn ''[shiny] Failed to connect to Shiny app, not launching browser''],
                   Returned))
             else
               (case openBrowser env (getRemoteSafeUrl env p) of
                  Inl e \<Rightarrow> (waited, Threw e)
                | Inr opened \<Rightarrow> (waited @ opened, Returned))))"

text \<open>The waits of a run: the ports, the terminal and the timeout of each.\<close>

fun waits :: "event list \<Rightarrow> (port list \<times> terminal option \<times> rat) list" where
  "waits [] = []"
| "waits (Probing ports term timeout # es) = (ports, term, timeout) # waits es"
| "waits (e # es) = waits es"

fun increments :: "event list \<Rightarrow> js_number list" where
  "increments [] = []"
| "increments (Progress_Report i # es) = i # increments es"
| "increments (e # es) = increments es"

definition is_browser_action :: "event \<Rightarrow> bool" where
  "is_browser_action e =
     (case e of Open_External u \<Rightarrow> True | Host_Preview u \<Rightarrow> True
      | Simple_Browser_Open u \<Rightarrow> True | _ \<Rightarrow> False)"

definition is_user_message :: "event \<Rightarrow> bool" where
  "is_user_message e = (case e of Show_Error_Message m items \<Rightarrow> True | _ \<Rightarrow> False)"

definition is_progress :: "event \<Rightarrow> bool" where
  "is_progress e =
     (case e of With_Progress t \<Rightarrow> True | Probing ps t d \<Rightarrow> True
      | Progress_Report i \<Rightarrow> True | _ \<Rightarrow> False)"

text \<open>
  The fraction of the timeout, in percent, that has elapsed between the start of a
  wait and its last progress report, computed as a progress report computes.
\<close>

definition elapsed_fraction :: "rat \<Rightarrow> round \<Rightarrow> js_number" where
  "elapsed_fraction timeout r =
     js_mul
       (js_div
          (js_sub (Num (of_int (last (clock_start r # clock_reports r))))
             (Num (of_int (clock_start r))))
          (Num timeout))
       (Num 100)"

text \<open>
  The round in which the wait times out, the user picks "Keep waiting" and the
  terminal, if there is one, has not exited.
\<close>

definition keeps_waiting :: "port list \<Rightarrow> terminal option \<Rightarrow> round \<Rightarrow> bool" where
  "keeps_waiting ports term r =
     ((term = None \<or> (\<not> closed_first r \<and> \<not> exited_at_inspect r \<and> \<not> exited_at_decision r))
      \<and> list_ex (\<lambda>k. falsy (retry_result r k)) [0..<length ports]
      \<and> user_action r = Some ''Keep waiting'')"


section \<open>ProposedFilePreviewProvider\<close>

text \<open>
  Modelled from the spec: the type \<open>FileContent\<close> of \<open>types.ts\<close>, which is not among the
  sources; the spec names its parts (name, content, binary/text flag), and the class
  reads \<open>name\<close>, \<open>content\<close> and the optional \<open>type\<close>.
\<close>

datatype file_type = Text_File | Binary_File

record file_content =
  fc_name :: string
  fc_content :: string
  fc_type :: "file_type option"

record uri =
  uri_path :: string

text \<open>
  The field \<open>files\<close> is a plain object (\<open>{}\<close>) used as a dictionary. Reading
  \<open>files[key]\<close> goes through the object's own properties and then its prototype
  chain, so the keys of \<open>Object.prototype\<close> read as built-in values; writing
  \<open>files["__proto__"] = f\<close> runs the setter of \<open>Object.prototype\<close>, which makes \<open>f\<close>
  the prototype of \<open>files\<close> and adds no property.
\<close>

record provider =
  own_files :: "string \<rightharpoonup> file_content"
  proto_file :: "file_content option"

definition new_provider :: provider where
  "new_provider = \<lparr>own_files = Map.empty, proto_file = None\<rparr>"

definition object_prototype_keys :: "string list" where
  "object_prototype_keys =
     [''constructor'', ''__defineGetter__'', ''__defineSetter__'', ''hasOwnProperty'',
      ''__lookupGetter__'', ''__lookupSetter__'', ''isPrototypeOf'',
      ''propertyIsEnumerable'', ''toString'', ''valueOf'', ''__proto__'',
      ''toLocaleString'']"

datatype js_value = Undefined | File_Object file_content | String_Value string | Builtin_Value

definition type_string :: "file_type \<Rightarrow> string" where
  "type_string t = (case t of Text_File \<Rightarrow> ''text'' | Binary_File \<Rightarrow> ''binary'')"

definition get_property :: "provider \<Rightarrow> string \<Rightarrow> js_value" where
  "get_property pv k =
     (case own_files pv k of
        Some f \<Rightarrow> File_Object f
      | None \<Rightarrow>
          (case proto_file pv of
             Some f \<Rightarrow>
               (if k = ''name'' then String_Value (fc_name f)
                else if k = ''content'' then String_Value (fc_content f)
                else if k = ''type'' then
                  (case fc_type f of None \<Rightarrow> Undefined | Some t \<Rightarrow> String_Value (type_string t))
                else if k = ''__proto__'' then File_Object f
                else if k \<in> set object_prototype_keys then Builtin_Value
                else Undefined)
           | None \<Rightarrow> (if k \<in> set object_prototype_keys then Builtin_Value else Undefined)))"

definition truthy :: "js_value \<Rightarrow> bool" where
  "truthy v =
     (case v of Undefined \<Rightarrow> False | String_Value s \<Rightarrow> s \<noteq> [] | _ \<Rightarrow> True)"

text \<open>Reading \<open>.content\<close>: only a file object has it; \<open>None\<close> is \<open>undefined\<close>.\<close>

definition content_property :: "js_value \<Rightarrow> string option" where
  "content_property v = (case v of File_Object f \<Rightarrow> Some (fc_content f) | _ \<Rightarrow> None)"

definition startsWith :: "string \<Rightarrow> string \<Rightarrow> bool" where
  "startsWith s pre = (take (length pre) s = pre)"

definition provideTextDocumentContent :: "provider \<Rightarrow> uri \<Rightarrow> string option" where
  "provideTextDocumentContent pv u =
     (if startsWith (uri_path u) ''/empty/'' then Some []
      else
        let file = get_property pv (uri_path u) in
        if \<not> truthy file then Some [] else content_property file)"

text \<open>\<open>addFile\<close>, with \<open>path.join\<close> of Node's library as the parameter \<open>join\<close>.\<close>

definition addFile ::
  "(string \<Rightarrow> string \<Rightarrow> string) \<Rightarrow> file_content \<Rightarrow> string option \<Rightarrow> provider
     \<Rightarrow> js_error + provider" where
  "addFile join file prefixDir pv =
     (if fc_type file = Some Binary_File then Inl (Binary_Not_Supported (fc_name file))
      else
        let fileCopy =
              (case prefixDir of
                 None \<Rightarrow> file
               | Some d \<Rightarrow> (if d = [] then file else file\<lparr>fc_name := join d (fc_name file)\<rparr>))
        in
        Inr (if fc_name fileCopy = ''__proto__'' then pv\<lparr>proto_file := Some fileCopy\<rparr>
             else pv\<lparr>own_files := (own_files pv)(fc_name fileCopy \<mapsto> fileCopy)\<rparr>))"

fun addFiles ::
  "(string \<Rightarrow> string \<Rightarrow> string) \<Rightarrow> file_content list \<Rightarrow> string option \<Rightarrow> provider
     \<Rightarrow> js_error + provider" where
  "addFiles join [] prefixDir pv = Inr pv"
| "addFiles join (file # files) prefixDir pv =
     (case addFile join file prefixDir pv of
        Inl e \<Rightarrow> Inl e
      | Inr pv' \<Rightarrow> addFiles join files prefixDir pv')"


section \<open>The reachability probe settles once\<close>

lemma on_socket_event_fulfilled:
  "settled s = Fulfilled v \<Longrightarrow> settled (on_socket_event ev s) = Fulfilled v"
  by (cases ev) (simp_all add: on_socket_event_def resolve_def reject_def)

lemma fold_socket_events_fulfilled:
  "settled s = Fulfilled v \<Longrightarrow> settled (fold on_socket_event evs s) = Fulfilled v"
  by (induction evs arbitrary: s) (simp_all add: on_socket_event_fulfilled)

text \<open>
  Claim C9. For every host, port and timeout: once the events so far have resolved the
  promise of \<open>isPortOpen\<close> with \<open>true\<close>, no events emitted later (the \<open>close\<close> that
  follows the probe's own \<open>client.end()\<close>, an \<open>error\<close>, a \<open>timeout\<close>) change the
  outcome; the promise stays fulfilled with \<open>true\<close>.
\<close>

theorem isPortOpen_success_final:
  "settled (isPortOpen host p timeout before) = Fulfilled True
   \<Longrightarrow> settled (isPortOpen host p timeout (before @ later)) = Fulfilled True"
  by (auto simp: isPortOpen_def fold_socket_events_fulfilled split: if_splits)

theorem isPortOpen_success_final_witness:
  "settled (isPortOpen ''127.0.0.1'' 8080 None [Ev_connect]) = Fulfilled True
   \<and> settled (isPortOpen ''127.0.0.1'' 8080 None
        ([Ev_connect] @ [Ev_close, Ev_error (Socket_Error ''ECONNRESET''), Ev_timeout]))
      = Fulfilled True"
proof -
  have h: "settled (isPortOpen ''127.0.0.1'' 8080 None [Ev_connect]) = Fulfilled True"
    by (simp add: isPortOpen_def on_socket_event_def resolve_def default_arg_def)
  show ?thesis
    using h isPortOpen_success_final [OF h] by simp
qed


section \<open>The preview launcher in external mode\<close>

text \<open>
  A string whose scheme has a character that no scheme may have is refused by
  \<open>vscode.Uri.parse\<close> whatever the percent-decoding does: \<open>openBrowser\<close> rejects and
  makes no call.
\<close>

lemma openBrowser_illegal_scheme:
  "configShinyPreviewType env = ''external''
   \<Longrightarrow> openBrowser env ''a b://x'' = Inl (Uri_Error Illegal_Scheme)"
  by (simp add: openBrowser_def uri_parse_error_def parse_scheme_def parse_authority_def
      schemeFix_def validateUri_def schemePattern_def word_char_def)

text \<open>
  Claim C7, as amended. With the preview type "external", \<open>openBrowser("about:blank")\<close>
  makes no call at all and returns; for every other string that \<open>vscode.Uri.parse\<close>
  accepts, the one call made hands the URL parsed from it to the external-open
  facility; for a string that \<open>vscode.Uri.parse\<close> refuses, \<open>openBrowser\<close> rejects with
  the error of the parse and makes no call.
\<close>

theorem openBrowser_external:
  "configShinyPreviewType env = ''external''
   \<Longrightarrow> openBrowser env url =
         (if url = ''about:blank'' then Inr []
          else case uri_parse_error (percentDecode env) url of
                 Some e \<Rightarrow> Inl e
               | None \<Rightarrow> Inr [Open_External url])"
  by (simp add: openBrowser_def)

theorem openBrowser_external_witness:
  "configShinyPreviewType
     \<lparr>previewType_setting = Some ''external'', timeoutOpenBrowser_setting = None,
      hostPreview = True, getRemoteSafeUrl = (\<lambda>p. ''http://localhost''),
      percentDecode = (\<lambda>s. s)\<rparr> = ''external''
   \<and> openBrowser
       \<lparr>previewType_setting = Some ''external'', timeoutOpenBrowser_setting = None,
        hostPreview = True, getRemoteSafeUrl = (\<lambda>p. ''http://localhost''),
        percentDecode = (\<lambda>s. s)\<rparr>
       ''about:blank'' = Inr []
   \<and> uri_parse_error (\<lambda>s. s) ''http://localhost:8080'' = None
   \<and> openBrowser
       \<lparr>previewType_setting = Some ''external'', timeoutOpenBrowser_setting = None,
        hostPreview = True, getRemoteSafeUrl = (\<lambda>p. ''http://localhost''),
        percentDecode = (\<lambda>s. s)\<rparr>
       ''http://localhost:8080''
      = Inr [Open_External ''http://localhost:8080'']"
proof -
  let ?env = "\<lparr>previewType_setting = Some ''external'', timeoutOpenBrowser_setting = None,
      hostPreview = True, getRemoteSafeUrl = (\<lambda>p. ''http://localhost''),
      percentDecode = (\<lambda>s. s)\<rparr>"
  have h: "configShinyPreviewType ?env = ''external''"
    by (simp add: configShinyPreviewType_def)
  have parses: "uri_parse_error (\<lambda>s. s) ''http://localhost:8080'' = None"
    by (simp add: uri_parse_error_def parse_scheme_def parse_authority_def parse_path_def
        schemeFix_def referenceResolution_def validateUri_def schemePattern_def word_char_def)
  show ?thesis
    using h parses openBrowser_external [OF h, of "''about:blank''"]
      openBrowser_external [OF h, of "''http://localhost:8080''"]
    by simp
qed

text \<open>
  The claim as it was stated fails: with the preview type "external", two strings
  other than \<open>about:blank\<close> for which no external-open call is made, because
  \<open>vscode.Uri.parse\<close> throws (a scheme with a space; a path that starts with two
  slashes after an empty authority).
\<close>

theorem openBrowser_external_counterexample:
  "configShinyPreviewType
     \<lparr>previewType_setting = Some ''external'', timeoutOpenBrowser_setting = None,
      hostPreview = True, getRemoteSafeUrl = (\<lambda>p. ''http://localhost''),
      percentDecode = (\<lambda>s. s)\<rparr> = ''external''
   \<and> ''a b://x'' \<noteq> ''about:blank''
   \<and> openBrowser
       \<lparr>previewType_setting = Some ''external'', timeoutOpenBrowser_setting = None,
        hostPreview = True, getRemoteSafeUrl = (\<lambda>p. ''http://localhost''),
        percentDecode = (\<lambda>s. s)\<rparr>
       ''a b://x'' = Inl (Uri_Error Illegal_Scheme)
   \<and> openBrowser
       \<lparr>previewType_setting = Some ''external'', timeoutOpenBrowser_setting = None,
        hostPreview = True, getRemoteSafeUrl = (\<lambda>p. ''http://localhost''),
        percentDecode = (\<lambda>s. s)\<rparr>
       ''http:////x'' = Inl (Uri_Error Path_Has_Two_Slashes)"
  by (simp add: configShinyPreviewType_def openBrowser_def uri_parse_error_def
      parse_scheme_def parse_authority_def parse_path_def schemeFix_def
      referenceResolution_def validateUri_def schemePattern_def word_char_def)


section \<open>The bindability probe releases its listener\<close>

lemma bind_port_release:
  "bind_port q srv w = (out, srv', w') \<Longrightarrow> srv = None \<Longrightarrow> closeServer srv' w' = w"
  by (auto simp: bind_port_def closeServer_def split: if_splits)

lemma server_listen_release:
  "server_listen p createServer w = (out, srv', w') \<Longrightarrow> closeServer srv' w' = w"
  by (auto simp: server_listen_def createServer_def closeServer_def
      dest: bind_port_release split: if_splits option.splits)

lemma server_listen_throws:
  "server_listen p createServer w = (Listen_Throws e, srv', w') \<Longrightarrow> w' = w"
  by (auto simp: server_listen_def bind_port_def split: if_splits option.splits)

lemma isServerPortAvailable_os: "snd (isServerPortAvailable p w) = w"
  by (cases "server_listen p createServer w")
    (auto simp: isServerPortAvailable_def split: listen_outcome.splits
      dest: server_listen_release server_listen_throws)

lemma isServerPortAvailable_value:
  "1 \<le> p \<Longrightarrow> p \<le> 65535
   \<Longrightarrow> fst (isServerPortAvailable p w) = Inr (p \<notin> listeners w \<and> p \<notin> denied w)"
  by (simp add: isServerPortAvailable_def server_listen_def bind_port_def)

text \<open>
  Claim C3. For every port, \<open>isServerPortAvailable\<close> resolves \<open>true\<close> when the server
  gets to listen and \<open>false\<close> when the bind fails (for a port in 1..65535: \<open>true\<close>
  exactly when the port has no listener and may be bound); whatever the outcome,
  the operating system the caller finds has the listeners it had before the call, so
  the test listener is closed by then; and a call that reports \<open>true\<close> is followed by
  a second call on the same port that reports \<open>true\<close> again.
\<close>

theorem isServerPortAvailable_releases:
  "(case fst (server_listen p createServer w) of
      Ev_listening q \<Rightarrow> fst (isServerPortAvailable p w) = Inr True
    | Ev_listen_error e \<Rightarrow> fst (isServerPortAvailable p w) = Inr False
    | Listen_Throws e \<Rightarrow> fst (isServerPortAvailable p w) = Inl e)
   \<and> (1 \<le> p \<and> p \<le> 65535
        \<longrightarrow> fst (isServerPortAvailable p w) = Inr (p \<notin> listeners w \<and> p \<notin> denied w))
   \<and> listeners (snd (isServerPortAvailable p w)) = listeners w
   \<and> snd (isServerPortAvailable p w) = w
   \<and> (fst (isServerPortAvailable p w) = Inr True
        \<longrightarrow> fst (isServerPortAvailable p (snd (isServerPortAvailable p w))) = Inr True)"
proof -
  have "case fst (server_listen p createServer w) of
      Ev_listening q \<Rightarrow> fst (isServerPortAvailable p w) = Inr True
    | Ev_listen_error e \<Rightarrow> fst (isServerPortAvailable p w) = Inr False
    | Listen_Throws e \<Rightarrow> fst (isServerPortAvailable p w) = Inl e"
    by (cases "server_listen p createServer w")
      (simp add: isServerPortAvailable_def split: listen_outcome.splits)
  then show ?thesis
    by (simp add: isServerPortAvailable_os isServerPortAvailable_value)
qed

theorem isServerPortAvailable_releases_witness:
  "fst (isServerPortAvailable 8080 \<lparr>listeners = {3000}, denied = {80}, ephemeral = Some 49152\<rparr>)
     = Inr True
   \<and> snd (isServerPortAvailable 8080 \<lparr>listeners = {3000}, denied = {80}, ephemeral = Some 49152\<rparr>)
     = \<lparr>listeners = {3000}, denied = {80}, ephemeral = Some 49152\<rparr>
   \<and> fst (isServerPortAvailable 8080
        (snd (isServerPortAvailable 8080
           \<lparr>listeners = {3000}, denied = {80}, ephemeral = Some 49152\<rparr>))) = Inr True
   \<and> fst (isServerPortAvailable 3000 \<lparr>listeners = {3000}, denied = {80}, ephemeral = Some 49152\<rparr>)
     = Inr False"
  using isServerPortAvailable_releases
          [of 8080 "\<lparr>listeners = {3000}, denied = {80}, ephemeral = Some 49152\<rparr>"]
    isServerPortAvailable_releases
          [of 3000 "\<lparr>listeners = {3000}, denied = {80}, ephemeral = Some 49152\<rparr>"]
  by simp


section \<open>Waiting for a port to become bindable\<close>

lemma attempt_start_map:
  "attempt_start i (map (\<lambda>(latency, w). (latency, f w)) attempts) k = attempt_start i attempts k"
  by (induction i attempts k rule: attempt_start.induct) auto

lemma retry_enough:
  "T \<le> of_nat elapsed + of_nat i * of_nat (length attempts)
   \<Longrightarrow> retryUntilTimeout T i elapsed attempts \<noteq> None"
proof (induction attempts arbitrary: elapsed)
  case Nil
  then show ?case by simp
next
  case (Cons a attempts)
  obtain latency outcome where a: "a = (latency, outcome)" by (cases a)
  have "T \<le> of_nat (elapsed + latency + i) + of_nat i * of_nat (length attempts)"
    using Cons.prems by (simp add: algebra_simps)
  from Cons.IH [OF this] show ?case
    by (simp add: a split: sum.splits)
qed

lemma retry_success_sound:
  "retryUntilTimeout T i elapsed attempts = Some (Some v)
   \<Longrightarrow> \<exists>k<length attempts. of_nat (elapsed + attempt_start i attempts k) < T
         \<and> snd (attempts ! k) = Inr v"
proof (induction attempts arbitrary: elapsed)
  case Nil
  then show ?case by (simp split: if_splits)
next
  case (Cons a attempts)
  obtain latency outcome where a: "a = (latency, outcome)" by (cases a)
  show ?case
  proof (cases outcome)
    case (Inr u)
    with Cons.prems a have "of_nat elapsed < T" "u = v"
      by (auto split: if_splits)
    with Inr a show ?thesis by (auto intro!: exI [of _ 0])
  next
    case (Inl e)
    with Cons.prems a
    have "retryUntilTimeout T i (elapsed + latency + i) attempts = Some (Some v)"
      by (auto split: if_splits)
    from Cons.IH [OF this] obtain k where k: "k < length attempts"
      "of_nat (elapsed + latency + i + attempt_start i attempts k) < T"
      "snd (attempts ! k) = Inr v" by blast
    then show ?thesis
      by (auto intro!: exI [of _ "Suc k"] simp: a add.assoc)
  qed
qed

lemma retry_success_complete:
  "k < length attempts \<Longrightarrow> of_nat (elapsed + attempt_start i attempts k) < T
   \<Longrightarrow> snd (attempts ! k) = Inr v
   \<Longrightarrow> \<exists>u. retryUntilTimeout T i elapsed attempts = Some (Some u)"
proof (induction attempts arbitrary: elapsed k)
  case Nil
  then show ?case by simp
next
  case (Cons a attempts)
  obtain latency outcome where a: "a = (latency, outcome)" by (cases a)
  have el: "of_nat elapsed < T"
  proof -
    have "(of_nat elapsed :: rat) \<le> of_nat (elapsed + attempt_start i (a # attempts) k)"
      by (simp only: of_nat_le_iff le_add1)
    with Cons.prems(2) show ?thesis by simp
  qed
  show ?case
  proof (cases outcome)
    case (Inr u)
    with el a show ?thesis by simp
  next
    case (Inl e)
    show ?thesis
    proof (cases k)
      case 0
      with Cons.prems a Inl show ?thesis by simp
    next
      case (Suc j)
      with Cons.prems a have "j < length attempts"
        "of_nat (elapsed + latency + i + attempt_start i attempts j) < T"
        "snd (attempts ! j) = Inr v"
        by (simp_all add: add.assoc)
      from Cons.IH [OF this] show ?thesis using el a Inl by simp
    qed
  qed
qed


lemma port_callback_value:
  "port_callback p w = Inr v \<longleftrightarrow> v = True \<and> fst (isServerPortAvailable p w) = Inr True"
  by (auto simp: port_callback_def split: sum.splits)

lemma nth_map_attempt:
  "k < length attempts
   \<Longrightarrow> snd (map (\<lambda>(latency, w). (latency, f w)) attempts ! k) = f (snd (attempts ! k))"
  by (simp add: case_prod_unfold)

text \<open>
  Claim C4. For every port and timeout, \<open>waitUntilServerPortIsAvailable\<close> retries the
  bindability probe with pauses of 80 ms under the timeout and returns a boolean:
  when the listed attempts are enough for the deadline to pass (each failed attempt
  moves the clock by at least 80 ms), the result is \<open>true\<close> exactly when some attempt
  that started before the deadline found the port bindable, and \<open>false\<close> otherwise;
  it is never absent and never an error. The retry loop is the one modelled from the
  spec.
\<close>

theorem waitUntilServerPortIsAvailable_boolean:
  assumes fuel: "default_arg 1000 timeout \<le> 80 * of_nat (length attempts)"
  shows "waitUntilServerPortIsAvailable p timeout attempts =
           Some (\<exists>k<length attempts.
                   of_nat (attempt_start 80 attempts k) < default_arg 1000 timeout
                   \<and> fst (isServerPortAvailable p (snd (attempts ! k))) = Inr True)"
proof -
  let ?T = "default_arg 1000 timeout"
  let ?as = "map (\<lambda>(latency, w). (latency, port_callback p w)) attempts"
  let ?found = "\<exists>k<length attempts. of_nat (attempt_start 80 attempts k) < ?T
                   \<and> fst (isServerPortAvailable p (snd (attempts ! k))) = Inr True"
  have "?T \<le> of_nat 0 + of_nat 80 * of_nat (length ?as)"
    using fuel by simp
  then have "retryUntilTimeout ?T 80 0 ?as \<noteq> None"
    by (rule retry_enough)
  then obtain res where res: "retryUntilTimeout ?T 80 0 ?as = Some res"
    by blast
  show ?thesis
  proof (cases res)
    case None
    have "\<not> ?found"
    proof
      assume ?found
      then obtain k where k: "k < length attempts"
        "of_nat (attempt_start 80 attempts k) < ?T"
        "fst (isServerPortAvailable p (snd (attempts ! k))) = Inr True"
        by blast
      have "k < length ?as" using k(1) by simp
      moreover have "of_nat (0 + attempt_start 80 ?as k) < ?T"
        using k(2) by (simp add: attempt_start_map)
      moreover have "snd (?as ! k) = Inr True"
        using k(1) k(3) by (simp add: case_prod_unfold port_callback_value)
      ultimately have "\<exists>u. retryUntilTimeout ?T 80 0 ?as = Some (Some u)"
        by (rule retry_success_complete)
      with res None show False by simp
    qed
    with res None show ?thesis
      by (simp add: waitUntilServerPortIsAvailable_def)
  next
    case (Some v)
    with res have "retryUntilTimeout ?T 80 0 ?as = Some (Some v)" by simp
    from retry_success_sound [OF this] obtain k where k: "k < length ?as"
      "of_nat (0 + attempt_start 80 ?as k) < ?T" "snd (?as ! k) = Inr v"
      by blast
    from k(1) have kl: "k < length attempts" by simp
    from k(3) kl have v: "v = True"
      "fst (isServerPortAvailable p (snd (attempts ! k))) = Inr True"
      by (simp_all add: case_prod_unfold port_callback_value)
    from k(2) have "of_nat (attempt_start 80 attempts k) < ?T"
      by (simp add: attempt_start_map)
    with kl v(2) have ?found by blast
    with res Some v(1) show ?thesis
      by (simp add: waitUntilServerPortIsAvailable_def)
  qed
qed

theorem waitUntilServerPortIsAvailable_boolean_witness:
  "default_arg 1000 (Some (200::rat)) \<le>
     80 * of_nat (length
       [(5::nat, \<lparr>listeners = {8080}, denied = {}, ephemeral = None\<rparr>),
        (5, \<lparr>listeners = {8080}, denied = {}, ephemeral = None\<rparr>),
        (5, \<lparr>listeners = {}, denied = {}, ephemeral = None\<rparr>)])
   \<and> waitUntilServerPortIsAvailable 8080 (Some 200)
       [(5, \<lparr>listeners = {8080}, denied = {}, ephemeral = None\<rparr>),
        (5, \<lparr>listeners = {8080}, denied = {}, ephemeral = None\<rparr>),
        (5, \<lparr>listeners = {}, denied = {}, ephemeral = None\<rparr>)] = Some True
   \<and> (\<exists>k<length
         [(5::nat, \<lparr>listeners = {8080}, denied = {}, ephemeral = None\<rparr>),
          (5, \<lparr>listeners = {8080}, denied = {}, ephemeral = None\<rparr>),
          (5, \<lparr>listeners = {}, denied = {}, ephemeral = None\<rparr>)].
         of_nat (attempt_start 80
           [(5::nat, \<lparr>listeners = {8080}, denied = {}, ephemeral = None\<rparr>),
            (5, \<lparr>listeners = {8080}, denied = {}, ephemeral = None\<rparr>),
            (5, \<lparr>listeners = {}, denied = {}, ephemeral = None\<rparr>)] k)
           < default_arg 1000 (Some (200::rat))
         \<and> fst (isServerPortAvailable 8080
               (snd ([(5::nat, \<lparr>listeners = {8080}, denied = {}, ephemeral = None\<rparr>),
                      (5, \<lparr>listeners = {8080}, denied = {}, ephemeral = None\<rparr>),
                      (5, \<lparr>listeners = {}, denied = {}, ephemeral = None\<rparr>)] ! k)))
             = Inr True)"
proof -
  let ?as = "[(5::nat, \<lparr>listeners = {8080}, denied = {}, ephemeral = None\<rparr>),
        (5, \<lparr>listeners = {8080}, denied = {}, ephemeral = None\<rparr>),
        (5, \<lparr>listeners = {}, denied = {}, ephemeral = None\<rparr>)]"
  have h: "default_arg 1000 (Some (200::rat)) \<le> 80 * of_nat (length ?as)"
    by (simp add: default_arg_def)
  have run: "waitUntilServerPortIsAvailable 8080 (Some 200) ?as = Some True"
    by (simp add: waitUntilServerPortIsAvailable_def default_arg_def port_callback_def
        isServerPortAvailable_def server_listen_def bind_port_def closeServer_def
        createServer_def)
  show ?thesis
    using h run waitUntilServerPortIsAvailable_boolean [OF h, of 8080] by simp
qed


section \<open>Suggested ports are never unsafe\<close>

lemma suggestPort_range:
  "list_all os_ok ws \<Longrightarrow> suggestPort ws = Some (Inr q, w')
   \<Longrightarrow> 1 \<le> q \<and> q \<le> 65535 \<and> q \<notin> set UNSAFE_PORTS"
proof (induction ws)
  case Nil
  then show ?case by simp
next
  case (Cons w ws)
  show ?case
  proof (cases "server_listen 0 createServer w")
    case (fields out srv w1)
    show ?thesis
    proof (cases out)
      case (Ev_listening c)
      with fields have "ephemeral w = Some c"
        by (auto simp: server_listen_def bind_port_def split: option.splits if_splits)
      with Cons.prems(1) have c: "1 \<le> c \<and> c \<le> 65535"
        by (simp add: os_ok_def)
      show ?thesis
      proof (cases "c \<in> set UNSAFE_PORTS")
        case True
        with fields Ev_listening Cons.prems have "suggestPort ws = Some (Inr q, w')"
          by simp
        with Cons.IH Cons.prems(1) show ?thesis by simp
      next
        case False
        with fields Ev_listening Cons.prems have "q = c" by simp
        with c False show ?thesis by simp
      qed
    next
      case (Ev_listen_error e)
      with fields Cons.prems show ?thesis by simp
    next
      case (Listen_Throws e)
      with fields Cons.prems show ?thesis by simp
    qed
  qed
qed

lemma suggestPort_skips:
  "fst (server_listen 0 createServer w) = Ev_listening c \<Longrightarrow> c \<in> set UNSAFE_PORTS
   \<Longrightarrow> suggestPort (w # ws) = suggestPort ws"
  by (cases "server_listen 0 createServer w") simp

text \<open>
  Claim C5. When the operating system assigns TCP ports (1..65535) to binds on port
  0, every port \<open>suggestPort\<close> returns is in 1..65535 and is not in \<open>UNSAFE_PORTS\<close>;
  a turn of the loop whose assigned port is in \<open>UNSAFE_PORTS\<close> returns nothing, and the
  loop goes on with the next bind.
\<close>

theorem suggestPort_never_unsafe:
  assumes "list_all os_ok ws"
  shows "(suggestPort ws = Some (Inr q, w') \<longrightarrow> 1 \<le> q \<and> q \<le> 65535 \<and> q \<notin> set UNSAFE_PORTS)
         \<and> (fst (server_listen 0 createServer w) = Ev_listening c \<and> c \<in> set UNSAFE_PORTS
              \<longrightarrow> suggestPort (w # ws) = suggestPort ws)"
  using assms suggestPort_range [of ws q w'] suggestPort_skips [of w c ws] by blast

theorem suggestPort_never_unsafe_witness:
  "list_all os_ok [\<lparr>listeners = {}, denied = {}, ephemeral = Some 49152\<rparr>]
   \<and> suggestPort [\<lparr>listeners = {}, denied = {}, ephemeral = Some 49152\<rparr>]
       = Some (Inr 49152, \<lparr>listeners = {}, denied = {}, ephemeral = Some 49152\<rparr>)
   \<and> (49152::int) \<notin> set UNSAFE_PORTS
   \<and> fst (server_listen 0 createServer \<lparr>listeners = {}, denied = {}, ephemeral = Some 6000\<rparr>)
       = Ev_listening 6000
   \<and> (6000::int) \<in> set UNSAFE_PORTS
   \<and> suggestPort [\<lparr>listeners = {}, denied = {}, ephemeral = Some 6000\<rparr>,
                   \<lparr>listeners = {}, denied = {}, ephemeral = Some 49152\<rparr>]
       = Some (Inr 49152, \<lparr>listeners = {}, denied = {}, ephemeral = Some 49152\<rparr>)"
proof -
  let ?w1 = "\<lparr>listeners = {}, denied = {}, ephemeral = Some (6000::int)\<rparr>"
  let ?w2 = "\<lparr>listeners = {}, denied = {}, ephemeral = Some (49152::int)\<rparr>"
  have ok: "list_all os_ok [?w2]"
    by (simp add: os_ok_def)
  have run: "suggestPort [?w2] = Some (Inr 49152, ?w2)"
    by (simp add: server_listen_def bind_port_def closeServer_def createServer_def
        UNSAFE_PORTS_def)
  have cand: "fst (server_listen 0 createServer ?w1) = Ev_listening 6000"
    by (simp add: server_listen_def bind_port_def createServer_def)
  have unsafe: "(6000::int) \<in> set UNSAFE_PORTS"
    by (simp add: UNSAFE_PORTS_def)
  show ?thesis
    using ok run cand unsafe
      suggestPort_never_unsafe [OF ok, of 49152 ?w2 ?w1 6000]
    by simp
qed


section \<open>Progress reports\<close>

lemma report_all_formula:
  "report_all T t0 ts =
     map (\<lambda>(lastReport, now).
            js_mul (js_div (js_sub (Num (of_int now)) (Num (of_int lastReport))) (Num T))
              (Num 100))
       (zip (t0 # ts) ts)"
  by (induction ts arbitrary: t0) (simp_all add: reportProgress_def)

lemma deltas_telescope:
  "sum_list (map (\<lambda>(lastReport, now). now - lastReport) (zip (t0 # ts) ts)) =
     last (t0 # ts) - (t0 :: int)"
proof (induction ts arbitrary: t0)
  case Nil
  then show ?case by simp
next
  case (Cons t ts)
  from Cons.IH [of t] show ?case by simp
qed

lemma increments_append: "increments (xs @ ys) = increments xs @ increments ys"
  by (induction xs rule: increments.induct) simp_all

lemma increments_reports: "increments (map Progress_Report xs) = xs"
  by (induction xs) simp_all

lemma increments_progress_body:
  "increments (progress_body ports term T r) = report_all T (clock_start r) (clock_reports r)"
  by (simp add: progress_body_def increments_reports)

lemma increments_openBrowser: "openBrowser env url = Inr opened \<Longrightarrow> increments opened = []"
  by (auto simp: openBrowser_def Let_def split: if_splits option.splits)

lemma increments_single_wait:
  assumes "configShinyPreviewType env \<noteq> ''none''"
  shows "increments (fst (openBrowserWhenReady env [r] p additionalPorts term timeout_arg)) =
           increments (progress_body (p # additionalPorts) term
             (default_arg (configShinyTimeoutOpenBrowser env) timeout_arg) r)"
  using assms
  by (auto simp add: Let_def emit_def increments_append increments_openBrowser
      split: race_result.splits sum.splits option.splits)

text \<open>
  Claim C8, as amended. Within one wait of \<open>openBrowserWhenReady\<close>, every progress
  report carries the increment \<open>((now - lastProgressReport) / timeout) * 100\<close>,
  computed in binary64 from the report before it (from the start of the wait for the
  first) and not from the start of the wait, and the time differences the reports
  are computed from add up to the time between the start of the wait and the last
  report. These are all the increments a call with one round reports (preview type
  other than "none"). The increments themselves are rounded values: their sum need
  not be the elapsed fraction of the timeout.
\<close>

theorem progress_reports_additive:
  "increments (progress_body ports term timeout r) =
     map (\<lambda>(lastReport, now).
            js_mul (js_div (js_sub (Num (of_int now)) (Num (of_int lastReport))) (Num timeout))
              (Num 100))
       (zip (clock_start r # clock_reports r) (clock_reports r))
   \<and> sum_list (map (\<lambda>(lastReport, now). now - lastReport)
                 (zip (clock_start r # clock_reports r) (clock_reports r))) =
       last (clock_start r # clock_reports r) - clock_start r
   \<and> (configShinyPreviewType env \<noteq> ''none'' \<longrightarrow>
        increments (fst (openBrowserWhenReady env [r] p additionalPorts term timeout_arg)) =
          increments (progress_body (p # additionalPorts) term
            (default_arg (configShinyTimeoutOpenBrowser env) timeout_arg) r))"
proof -
  have "increments (progress_body ports term timeout r) =
          report_all timeout (clock_start r) (clock_reports r)"
    by (rule increments_progress_body)
  then show ?thesis
    using report_all_formula [of timeout "clock_start r" "clock_reports r"]
      deltas_telescope [of "clock_start r" "clock_reports r"]
      increments_single_wait [of env r p additionalPorts "term" timeout_arg]
    by simp
qed

lemma report_all_example_1000: "report_all 1000 5000 [5000, 5250, 5700] = [Num 0, Num 25, Num 45]"
  by code_simp

theorem progress_reports_additive_witness:
  "configShinyPreviewType
     \<lparr>previewType_setting = None, timeoutOpenBrowser_setting = None, hostPreview = False,
      getRemoteSafeUrl = (\<lambda>p. ''http://localhost''),
      percentDecode = (\<lambda>s. s)\<rparr> \<noteq> ''none''
   \<and> increments (fst (openBrowserWhenReady
        \<lparr>previewType_setting = None, timeoutOpenBrowser_setting = None, hostPreview = False,
         getRemoteSafeUrl = (\<lambda>p. ''http://localhost''),
         percentDecode = (\<lambda>s. s)\<rparr>
        [\<lparr>clock_start = 5000, clock_reports = [5000, 5250, 5700],
          retry_result = (\<lambda>k. Some True), closed_first = False, exited_at_inspect = False,
          user_action = None, exited_at_decision = False\<rparr>]
        3000 [] None (Some 1000)))
     = [Num 0, Num 25, Num 45]
   \<and> sum_list (map (\<lambda>(lastReport, now). now - lastReport)
        (zip (5000 # [5000, 5250, 5700]) [5000, 5250, 5700])) = (700 :: int)"
proof -
  let ?env = "\<lparr>previewType_setting = None, timeoutOpenBrowser_setting = None,
      hostPreview = False, getRemoteSafeUrl = (\<lambda>p. ''http://localhost''),
      percentDecode = (\<lambda>s. s)\<rparr>"
  let ?r = "\<lparr>clock_start = 5000, clock_reports = [5000, 5250, 5700],
         retry_result = (\<lambda>k. Some True), closed_first = False, exited_at_inspect = False,
         user_action = None, exited_at_decision = False\<rparr>"
  have h: "configShinyPreviewType ?env \<noteq> ''none''"
    by (simp add: configShinyPreviewType_def)
  note inst = progress_reports_additive [of "[3000]" None 1000 ?r ?env 3000 "[]" "Some 1000"]
  have body: "increments (progress_body [3000] None 1000 ?r) =
          report_all 1000 (clock_start ?r) (clock_reports ?r)"
    using inst [THEN conjunct1] by (simp only: report_all_formula)
  have "increments (fst (openBrowserWhenReady ?env [?r] 3000 [] None (Some 1000))) =
          increments (progress_body [3000] None
            (default_arg (configShinyTimeoutOpenBrowser ?env) (Some 1000)) ?r)"
    using inst [THEN conjunct2, THEN conjunct2] h by blast
  with body h show ?thesis
    by (simp add: report_all_example_1000 default_arg_def del: report_all.simps openBrowserWhenReady.simps)
qed

text \<open>
  The claim as it was stated fails: with the timeout 10000 and reports 80, 160 and
  240 ms after the start, each increment is the binary64 value 0.8, their sum is
  2.4000000000000004, and the elapsed fraction \<open>((240 - 0) / 10000) * 100\<close> is the
  binary64 value 2.4.
\<close>

lemma report_all_example_10000:
  "report_all 10000 0 [80, 160, 240] =
     [Num (3602879701896397 / 4503599627370496), Num (3602879701896397 / 4503599627370496),
      Num (3602879701896397 / 4503599627370496)]"
  by code_simp

lemma js_sum_example:
  "js_sum [Num (3602879701896397 / 4503599627370496), Num (3602879701896397 / 4503599627370496),
      Num (3602879701896397 / 4503599627370496)] = Num (1351079888211149 / 562949953421312)"
  by code_simp

lemma elapsed_example:
  "js_mul (js_div (js_sub (Num 240) (Num 0)) (Num 10000)) (Num 100) =
     Num (5404319552844595 / 2251799813685248)"
  by code_simp

theorem progress_reports_additive_counterexample:
  "js_sum (increments (fst (openBrowserWhenReady
        \<lparr>previewType_setting = None, timeoutOpenBrowser_setting = None, hostPreview = False,
         getRemoteSafeUrl = (\<lambda>p. ''http://localhost''),
         percentDecode = (\<lambda>s. s)\<rparr>
        [\<lparr>clock_start = 0, clock_reports = [80, 160, 240],
          retry_result = (\<lambda>k. Some True), closed_first = False, exited_at_inspect = False,
          user_action = None, exited_at_decision = False\<rparr>]
        3000 [] None (Some 10000))))
     = Num (1351079888211149 / 562949953421312)
   \<and> elapsed_fraction 10000
        \<lparr>clock_start = 0, clock_reports = [80, 160, 240],
         retry_result = (\<lambda>k. Some True), closed_first = False, exited_at_inspect = False,
         user_action = None, exited_at_decision = False\<rparr>
     = Num (5404319552844595 / 2251799813685248)
   \<and> js_sum (increments (fst (openBrowserWhenReady
        \<lparr>previewType_setting = None, timeoutOpenBrowser_setting = None, hostPreview = False,
         getRemoteSafeUrl = (\<lambda>p. ''http://localhost''),
         percentDecode = (\<lambda>s. s)\<rparr>
        [\<lparr>clock_start = 0, clock_reports = [80, 160, 240],
          retry_result = (\<lambda>k. Some True), closed_first = False, exited_at_inspect = False,
          user_action = None, exited_at_decision = False\<rparr>]
        3000 [] None (Some 10000))))
     \<noteq> elapsed_fraction 10000
        \<lparr>clock_start = 0, clock_reports = [80, 160, 240],
         retry_result = (\<lambda>k. Some True), closed_first = False, exited_at_inspect = False,
         user_action = None, exited_at_decision = False\<rparr>"
proof -
  let ?env = "\<lparr>previewType_setting = None, timeoutOpenBrowser_setting = None,
      hostPreview = False, getRemoteSafeUrl = (\<lambda>p. ''http://localhost''),
      percentDecode = (\<lambda>s. s)\<rparr>"
  have h: "configShinyPreviewType ?env \<noteq> ''none''"
    by (simp add: configShinyPreviewType_def)
  show ?thesis
    by (simp add: increments_single_wait [OF h] increments_progress_body elapsed_fraction_def
        report_all_example_10000 js_sum_example elapsed_example default_arg_def
        del: report_all.simps openBrowserWhenReady.simps)
qed


section \<open>The waits of a run\<close>

lemma waits_append: "waits (xs @ ys) = waits xs @ waits ys"
  by (induction xs rule: waits.induct) simp_all

lemma waits_reports: "waits (map Progress_Report xs) = []"
  by (induction xs) simp_all

lemma waits_progress_body: "waits (progress_body ports term T r) = [(ports, term, T)]"
  by (simp add: progress_body_def waits_reports)

lemma waits_openBrowser: "openBrowser env url = Inr opened \<Longrightarrow> waits opened = []"
  by (auto simp: openBrowser_def Let_def split: if_splits option.splits)

lemma filter_falsy_results:
  "filter falsy (map f xs) \<noteq> [] \<longleftrightarrow> list_ex (\<lambda>k. falsy (f k)) xs"
  by (simp add: filter_empty_conv list_ex_iff)

lemma keep_waiting_step:
  assumes "configShinyPreviewType env \<noteq> ''none''" and "keeps_waiting (p # additionalPorts) term r"
  shows "openBrowserWhenReady env (r # rs) p additionalPorts term timeout_arg =
           emit (progress_body (p # additionalPorts) term
                   (default_arg (configShinyTimeoutOpenBrowser env) timeout_arg) r
                 @ [Show_Error_Message
                      (Took_Longer \<lfloor>default_arg (configShinyTimeoutOpenBrowser env) timeout_arg / 1000\<rfloor>)
                      [if term \<noteq> None then ''Show Shiny process'' else [], ''Keep waiting'']])
             (openBrowserWhenReady env rs p additionalPorts term (Some 30000))"
proof -
  from assms(2) have r: "term = None \<or> (\<not> closed_first r \<and> \<not> exited_at_inspect r \<and> \<not> exited_at_decision r)"
    "filter falsy (map (retry_result r) [0..<length (p # additionalPorts)]) \<noteq> []"
    "user_action r = Some ''Keep waiting''"
    unfolding keeps_waiting_def filter_falsy_results by blast+
  show ?thesis
  proof (cases "term")
    case None
    with assms(1) r(2,3) show ?thesis
      by (simp add: portsOpenResult_def Let_def)
  next
    case (Some t)
    with r(1) have "\<not> closed_first r" "\<not> exited_at_inspect r" "\<not> exited_at_decision r"
      by simp_all
    with Some assms(1) r(2,3) show ?thesis
      by (simp add: portsOpenResult_def Let_def)
  qed
qed

lemma not_keep_waiting_step:
  assumes "configShinyPreviewType env \<noteq> ''none''" and "\<not> keeps_waiting (p # additionalPorts) term r"
  shows "waits (fst (openBrowserWhenReady env (r # rs) p additionalPorts term timeout_arg)) =
           [(p # additionalPorts, term, default_arg (configShinyTimeoutOpenBrowser env) timeout_arg)]"
proof (cases "term")
  case None
  with assms show ?thesis
    by (auto simp add: portsOpenResult_def Let_def keeps_waiting_def
        filter_falsy_results [symmetric] waits_append waits_progress_body waits_openBrowser
        simp del: upt_Suc split: sum.splits)
next
  case (Some t)
  with assms show ?thesis
    by (auto simp add: portsOpenResult_def Let_def keeps_waiting_def
        filter_falsy_results [symmetric] waits_append waits_progress_body waits_openBrowser
        simp del: upt_Suc split: sum.splits)
qed

lemma waits_run:
  assumes "configShinyPreviewType env \<noteq> ''none''"
  shows "waits (fst (openBrowserWhenReady env rs p additionalPorts term timeout_arg)) =
           (p # additionalPorts, term, default_arg (configShinyTimeoutOpenBrowser env) timeout_arg)
           # replicate (length (takeWhile (keeps_waiting (p # additionalPorts) term) rs))
               (p # additionalPorts, term, 30000)"
proof (induction rs arbitrary: timeout_arg)
  case Nil
  with assms show ?case by simp
next
  case (Cons r rs)
  show ?case
  proof (cases "keeps_waiting (p # additionalPorts) term r")
    case True
    show ?thesis
      unfolding keep_waiting_step [OF assms True]
      using True Cons.IH [of "Some 30000"]
      by (simp add: emit_def waits_append waits_progress_body default_arg_def)
  next
    case False
    with not_keep_waiting_step [OF assms False] show ?thesis by simp
  qed
qed

text \<open>
  Claim C1. With a preview type other than "none": a call whose wait times out (the
  retry of some port returned no \<open>true\<close>), whose prompt is answered "Keep waiting"
  and whose terminal, if any, has not exited, shows the prompt and goes on as the
  call with the same port, the same additional ports, the same terminal and the
  timeout 30000, whatever the timeout was; and in every run the first wait has the
  given timeout and each wait after it, one for each such round in a row, has the
  same ports and terminal and the timeout 30000.
\<close>

theorem keep_waiting_reinvokes:
  assumes "configShinyPreviewType env \<noteq> ''none''"
  shows "(keeps_waiting (p # additionalPorts) term r \<longrightarrow>
            openBrowserWhenReady env (r # rs) p additionalPorts term timeout_arg =
              emit (progress_body (p # additionalPorts) term
                      (default_arg (configShinyTimeoutOpenBrowser env) timeout_arg) r
                    @ [Show_Error_Message
                         (Took_Longer
                            \<lfloor>default_arg (configShinyTimeoutOpenBrowser env) timeout_arg / 1000\<rfloor>)
                         [if term \<noteq> None then ''Show Shiny process'' else [], ''Keep waiting'']])
                (openBrowserWhenReady env rs p additionalPorts term (Some 30000)))
         \<and> waits (fst (openBrowserWhenReady env rounds p additionalPorts term timeout_arg)) =
             (p # additionalPorts, term,
              default_arg (configShinyTimeoutOpenBrowser env) timeout_arg)
             # replicate (length (takeWhile (keeps_waiting (p # additionalPorts) term) rounds))
                 (p # additionalPorts, term, 30000)"
  using keep_waiting_step [OF assms] waits_run [OF assms] by blast

theorem keep_waiting_reinvokes_witness:
  "configShinyPreviewType
     \<lparr>previewType_setting = None, timeoutOpenBrowser_setting = None, hostPreview = False,
      getRemoteSafeUrl = (\<lambda>p. ''http://localhost''),
      percentDecode = (\<lambda>s. s)\<rparr> \<noteq> ''none''
   \<and> keeps_waiting [3000, 3001] (Some 1)
       \<lparr>clock_start = 0, clock_reports = [0, 20], retry_result = (\<lambda>k. None),
        closed_first = False, exited_at_inspect = False,
        user_action = Some ''Keep waiting'', exited_at_decision = False\<rparr>
   \<and> waits (fst (openBrowserWhenReady
        \<lparr>previewType_setting = None, timeoutOpenBrowser_setting = None, hostPreview = False,
         getRemoteSafeUrl = (\<lambda>p. ''http://localhost''),
      percentDecode = (\<lambda>s. s)\<rparr>
        [\<lparr>clock_start = 0, clock_reports = [0, 20], retry_result = (\<lambda>k. None),
          closed_first = False, exited_at_inspect = False,
          user_action = Some ''Keep waiting'', exited_at_decision = False\<rparr>,
         \<lparr>clock_start = 0, clock_reports = [0, 20], retry_result = (\<lambda>k. None),
          closed_first = False, exited_at_inspect = False,
          user_action = Some ''Keep waiting'', exited_at_decision = False\<rparr>,
         \<lparr>clock_start = 0, clock_reports = [0, 20], retry_result = (\<lambda>k. Some True),
          closed_first = False, exited_at_inspect = False,
          user_action = None, exited_at_decision = False\<rparr>]
        3000 [3001] (Some 1) (Some 200)))
     = [([3000, 3001], Some 1, 200), ([3000, 3001], Some 1, 30000),
        ([3000, 3001], Some 1, 30000)]"
proof -
  let ?env = "\<lparr>previewType_setting = None, timeoutOpenBrowser_setting = None,
      hostPreview = False, getRemoteSafeUrl = (\<lambda>p. ''http://localhost''),
      percentDecode = (\<lambda>s. s)\<rparr>"
  let ?kw = "\<lparr>clock_start = 0, clock_reports = [0, 20], retry_result = (\<lambda>k. None),
          closed_first = False, exited_at_inspect = False,
          user_action = Some ''Keep waiting'', exited_at_decision = False\<rparr>"
  let ?ok = "\<lparr>clock_start = 0, clock_reports = [0, 20], retry_result = (\<lambda>k. Some True),
          closed_first = False, exited_at_inspect = False,
          user_action = None, exited_at_decision = False\<rparr>"
  have h: "configShinyPreviewType ?env \<noteq> ''none''"
    by (simp add: configShinyPreviewType_def)
  have kw: "keeps_waiting [3000, 3001] (Some 1) ?kw"
    by (simp add: keeps_waiting_def falsy_def)
  have nk: "\<not> keeps_waiting [3000, 3001] (Some 1) ?ok"
    by (simp add: keeps_waiting_def falsy_def)
  from keep_waiting_reinvokes
         [OF h, of 3000 "[3001]" "Some 1" ?kw "[]" "Some 200" "[?kw, ?kw, ?ok]"]
  have "waits (fst (openBrowserWhenReady ?env [?kw, ?kw, ?ok] 3000 [3001] (Some 1) (Some 200)))
        = ([3000, 3001], Some 1, default_arg (configShinyTimeoutOpenBrowser ?env) (Some 200))
          # replicate (length (takeWhile (keeps_waiting [3000, 3001] (Some 1)) [?kw, ?kw, ?ok]))
              ([3000, 3001], Some 1, 30000)"
    by (rule conjunct2)
  then show ?thesis
    using h kw nk by (simp add: default_arg_def)
qed


section \<open>A closed terminal\<close>

lemma progress_body_is_progress: "list_all is_progress (progress_body ports term T r)"
  by (simp add: progress_body_def is_progress_def list_all_iff)

lemma progress_body_quiet:
  "list_all (\<lambda>e. \<not> is_browser_action e \<and> \<not> is_user_message e) (progress_body ports term T r)"
  by (simp add: progress_body_def is_browser_action_def is_user_message_def list_all_iff)

text \<open>
  Claim C2. With a terminal supplied (and a preview type other than "none"): when the
  terminal-closed promise settles the race first, or \<open>terminal.exitStatus\<close> is set when
  the result is inspected, the call returns, and all it did is the progress
  notification of the wait itself followed by one warning on the console: no browser
  or preview is opened and no message or prompt is shown.
\<close>

theorem terminal_closed_quiet:
  assumes "configShinyPreviewType env \<noteq> ''none''"
    and "closed_first r \<or> exited_at_inspect r"
  shows "openBrowserWhenReady env (r # rs) p additionalPorts (Some t) timeout_arg =
           (progress_body (p # additionalPorts) (Some t)
              (default_arg (configShinyTimeoutOpenBrowser env) timeout_arg) r
            @ [Console_Warn ''[shiny] Terminal has been closed, will not launch browser''],
            Returned)
         \<and> list_all is_progress
             (progress_body (p # additionalPorts) (Some t)
                (default_arg (configShinyTimeoutOpenBrowser env) timeout_arg) r)
         \<and> list_all (\<lambda>e. \<not> is_browser_action e \<and> \<not> is_user_message e)
             (fst (openBrowserWhenReady env (r # rs) p additionalPorts (Some t) timeout_arg))"
proof -
  have run: "openBrowserWhenReady env (r # rs) p additionalPorts (Some t) timeout_arg =
           (progress_body (p # additionalPorts) (Some t)
              (default_arg (configShinyTimeoutOpenBrowser env) timeout_arg) r
            @ [Console_Warn ''[shiny] Terminal has been closed, will not launch browser''],
            Returned)"
    using assms by (auto simp add: portsOpenResult_def Let_def simp del: upt_Suc)
  show ?thesis
    unfolding run
    using progress_body_is_progress progress_body_quiet
    by (simp add: is_browser_action_def is_user_message_def)
qed

theorem terminal_closed_quiet_witness:
  "configShinyPreviewType
     \<lparr>previewType_setting = None, timeoutOpenBrowser_setting = None, hostPreview = False,
      getRemoteSafeUrl = (\<lambda>p. ''http://localhost''),
      percentDecode = (\<lambda>s. s)\<rparr> \<noteq> ''none''
   \<and> closed_first
       \<lparr>clock_start = 0, clock_reports = [0, 50], retry_result = (\<lambda>k. None),
        closed_first = True, exited_at_inspect = False,
        user_action = Some ''Keep waiting'', exited_at_decision = False\<rparr>
   \<and> openBrowserWhenReady
        \<lparr>previewType_setting = None, timeoutOpenBrowser_setting = None, hostPreview = False,
         getRemoteSafeUrl = (\<lambda>p. ''http://localhost''),
      percentDecode = (\<lambda>s. s)\<rparr>
        [\<lparr>clock_start = 0, clock_reports = [0, 50], retry_result = (\<lambda>k. None),
          closed_first = True, exited_at_inspect = False,
          user_action = Some ''Keep waiting'', exited_at_decision = False\<rparr>]
        3000 [] (Some 7) (Some 1000)
     = ([With_Progress ''Waiting for Shiny app to start...'',
         Probing [3000] (Some 7) 1000, Progress_Report (Num 0), Progress_Report (Num 5),
         Console_Warn ''[shiny] Terminal has been closed, will not launch browser''],
        Returned)"
proof -
  let ?env = "\<lparr>previewType_setting = None, timeoutOpenBrowser_setting = None,
      hostPreview = False, getRemoteSafeUrl = (\<lambda>p. ''http://localhost''),
      percentDecode = (\<lambda>s. s)\<rparr>"
  let ?r = "\<lparr>clock_start = 0, clock_reports = [0, 50], retry_result = (\<lambda>k. None),
        closed_first = True, exited_at_inspect = False,
        user_action = Some ''Keep waiting'', exited_at_decision = False\<rparr>"
  have h: "configShinyPreviewType ?env \<noteq> ''none''"
    by (simp add: configShinyPreviewType_def)
  have c: "closed_first ?r \<or> exited_at_inspect ?r"
    by simp
  from terminal_closed_quiet [OF h c, of "[]" 3000 "[]" 7 "Some 1000"]
  have "openBrowserWhenReady ?env [?r] 3000 [] (Some 7) (Some 1000) =
          (progress_body [3000] (Some 7)
             (default_arg (configShinyTimeoutOpenBrowser ?env) (Some 1000)) ?r
           @ [Console_Warn ''[shiny] Terminal has been closed, will not launch browser''],
           Returned)"
    by (rule conjunct1)
  moreover have "report_all 1000 0 [0, 50] = [Num 0, Num 5]"
    by code_simp
  ultimately show ?thesis
    using h by (simp add: progress_body_def default_arg_def del: report_all.simps)
qed

text \<open>
  Claim C6. With a terminal supplied (and a preview type other than "none"): when the
  wait times out, the user answers the prompt with "Keep waiting" and
  \<open>terminal.exitStatus\<close> is set by then, the call shows the error message that asks to
  run the app again and returns; it waits once only, whatever rounds would follow,
  and opens no browser or preview.
\<close>

theorem terminal_exited_at_decision:
  assumes "configShinyPreviewType env \<noteq> ''none''"
    and "\<not> closed_first r" and "\<not> exited_at_inspect r"
    and "list_ex (\<lambda>k. falsy (retry_result r k)) [0..<length (p # additionalPorts)]"
    and "user_action r = Some ''Keep waiting''"
    and "exited_at_decision r"
  shows "openBrowserWhenReady env (r # rs) p additionalPorts (Some t) timeout_arg =
           (progress_body (p # additionalPorts) (Some t)
              (default_arg (configShinyTimeoutOpenBrowser env) timeout_arg) r
            @ [Show_Error_Message
                 (Took_Longer
                    \<lfloor>default_arg (configShinyTimeoutOpenBrowser env) timeout_arg / 1000\<rfloor>)
                 [''Show Shiny process'', ''Keep waiting''],
               Show_Error_Message
                 (Literal ''Shiny terminal was closed, please run the app again.'') []],
            Returned)
         \<and> waits (fst (openBrowserWhenReady env (r # rs) p additionalPorts (Some t) timeout_arg)) =
             [(p # additionalPorts, Some t,
               default_arg (configShinyTimeoutOpenBrowser env) timeout_arg)]
         \<and> list_all (\<lambda>e. \<not> is_browser_action e)
             (fst (openBrowserWhenReady env (r # rs) p additionalPorts (Some t) timeout_arg))"
proof -
  from assms(4)
  have timed_out: "filter falsy (map (retry_result r) [0..<length (p # additionalPorts)]) \<noteq> []"
    by (simp only: filter_falsy_results)
  have run: "openBrowserWhenReady env (r # rs) p additionalPorts (Some t) timeout_arg =
           (progress_body (p # additionalPorts) (Some t)
              (default_arg (configShinyTimeoutOpenBrowser env) timeout_arg) r
            @ [Show_Error_Message
                 (Took_Longer
                    \<lfloor>default_arg (configShinyTimeoutOpenBrowser env) timeout_arg / 1000\<rfloor>)
                 [''Show Shiny process'', ''Keep waiting''],
               Show_Error_Message
                 (Literal ''Shiny terminal was closed, please run the app again.'') []],
            Returned)"
    using assms(1,2,3,5,6) timed_out
    by (simp add: portsOpenResult_def Let_def del: upt_Suc)
  show ?thesis
    unfolding run
    using progress_body_quiet [of "p # additionalPorts" "Some t"
        "default_arg (configShinyTimeoutOpenBrowser env) timeout_arg" r]
    by (simp add: waits_append waits_progress_body is_browser_action_def list_all_iff)
qed

theorem terminal_exited_at_decision_witness:
  "configShinyPreviewType
     \<lparr>previewType_setting = None, timeoutOpenBrowser_setting = None, hostPreview = False,
      getRemoteSafeUrl = (\<lambda>p. ''http://localhost''),
      percentDecode = (\<lambda>s. s)\<rparr> \<noteq> ''none''
   \<and> list_ex (\<lambda>k. falsy (retry_result
        \<lparr>clock_start = 0, clock_reports = [0, 50], retry_result = (\<lambda>k. None),
         closed_first = False, exited_at_inspect = False,
         user_action = Some ''Keep waiting'', exited_at_decision = True\<rparr> k))
       [0..<length [3000::int]]
   \<and> openBrowserWhenReady
        \<lparr>previewType_setting = None, timeoutOpenBrowser_setting = None, hostPreview = False,
         getRemoteSafeUrl = (\<lambda>p. ''http://localhost''),
      percentDecode = (\<lambda>s. s)\<rparr>
        [\<lparr>clock_start = 0, clock_reports = [0, 50], retry_result = (\<lambda>k. None),
          closed_first = False, exited_at_inspect = False,
          user_action = Some ''Keep waiting'', exited_at_decision = True\<rparr>,
         \<lparr>clock_start = 0, clock_reports = [0, 50], retry_result = (\<lambda>k. Some True),
          closed_first = False, exited_at_inspect = False,
          user_action = None, exited_at_decision = False\<rparr>]
        3000 [] (Some 7) (Some 2500)
     = ([With_Progress ''Waiting for Shiny app to start...'',
         Probing [3000] (Some 7) 2500, Progress_Report (Num 0), Progress_Report (Num 2),
         Show_Error_Message (Took_Longer 2) [''Show Shiny process'', ''Keep waiting''],
         Show_Error_Message
           (Literal ''Shiny terminal was closed, please run the app again.'') []],
        Returned)"
proof -
  let ?env = "\<lparr>previewType_setting = None, timeoutOpenBrowser_setting = None,
      hostPreview = False, getRemoteSafeUrl = (\<lambda>p. ''http://localhost''),
      percentDecode = (\<lambda>s. s)\<rparr>"
  let ?r = "\<lparr>clock_start = 0, clock_reports = [0, 50], retry_result = (\<lambda>k. None),
        closed_first = False, exited_at_inspect = False,
        user_action = Some ''Keep waiting'', exited_at_decision = True\<rparr>"
  let ?r2 = "\<lparr>clock_start = 0, clock_reports = [0, 50], retry_result = (\<lambda>k. Some True),
          closed_first = False, exited_at_inspect = False,
          user_action = None, exited_at_decision = False\<rparr>"
  have h: "configShinyPreviewType ?env \<noteq> ''none''"
    by (simp add: configShinyPreviewType_def)
  have h2: "\<not> closed_first ?r" and h3: "\<not> exited_at_inspect ?r"
    and h5: "user_action ?r = Some ''Keep waiting''" and h6: "exited_at_decision ?r"
    by simp_all
  have h4: "list_ex (\<lambda>k. falsy (retry_result ?r k)) [0..<length (3000 # ([]::int list))]"
    by (simp add: falsy_def)
  from terminal_exited_at_decision [OF h h2 h3 h4 h5 h6, of "[?r2]" 7 "Some 2500"]
  have "openBrowserWhenReady ?env [?r, ?r2] 3000 [] (Some 7) (Some 2500) =
           (progress_body [3000] (Some 7)
              (default_arg (configShinyTimeoutOpenBrowser ?env) (Some 2500)) ?r
            @ [Show_Error_Message
                 (Took_Longer
                    \<lfloor>default_arg (configShinyTimeoutOpenBrowser ?env) (Some 2500) / 1000\<rfloor>)
                 [''Show Shiny process'', ''Keep waiting''],
               Show_Error_Message
                 (Literal ''Shiny terminal was closed, please run the app again.'') []],
            Returned)"
    by (rule conjunct1)
  moreover have "\<lfloor>(5::rat) / 2\<rfloor> = 2"
    by (simp add: floor_eq_iff)
  moreover have "report_all 2500 0 [0, 50] = [Num 0, Num 2]"
    by code_simp
  ultimately show ?thesis
    using h h4
    by (simp add: progress_body_def default_arg_def portsOpenResult_def Let_def falsy_def
        del: report_all.simps)
qed


section \<open>The preview provider and inherited keys\<close>

text \<open>
  For a path that starts with a slash, as the paths of hierarchical URIs do, the
  provider returns a string: empty under \<open>/empty/\<close> or when no file has the path as
  its own key, and the content of the file otherwise.
\<close>

lemma provide_slash_paths:
  assumes "uri_path u = CHR ''/'' # rest"
  shows "provideTextDocumentContent pv u =
           Some (if startsWith (uri_path u) ''/empty/'' then []
                 else case own_files pv (uri_path u) of None \<Rightarrow> [] | Some f \<Rightarrow> fc_content f)"
  using assms
  by (auto simp: provideTextDocumentContent_def get_property_def truthy_def
      content_property_def object_prototype_keys_def Let_def split: option.splits)

lemma provide_after_addFile:
  assumes "addFile join file prefixDir pv = Inr pv'"
    and "fc_name file = CHR ''/'' # rest" and "prefixDir = None"
    and "\<not> startsWith (fc_name file) ''/empty/''"
  shows "provideTextDocumentContent pv' \<lparr>uri_path = fc_name file\<rparr> = Some (fc_content file)"
proof -
  from assms(1,2,3) have "own_files pv' (fc_name file) = Some file"
    by (auto simp: addFile_def Let_def split: if_splits)
  with assms(2,4) show ?thesis
    by (simp add: provide_slash_paths [where rest = rest])
qed

text \<open>
  Claim C10 says that \<open>provideTextDocumentContent\<close> returns the empty string for
  every URI under whose path no file was registered, and never an absent value. The
  code does not: on a provider with no files, the path \<open>constructor\<close> reads the
  built-in \<open>Object.prototype.constructor\<close> out of the plain object \<open>files\<close>, the test
  \<open>!file\<close> lets it pass, and its \<open>content\<close> is \<open>undefined\<close>, which is returned.
\<close>

theorem provide_inherited_key_absent:
  "provideTextDocumentContent new_provider \<lparr>uri_path = ''constructor''\<rparr> = None"
  by (simp add: provideTextDocumentContent_def new_provider_def get_property_def
      truthy_def content_property_def object_prototype_keys_def startsWith_def)

end
